theory Spec2Isabelle
  imports Complex_Main
begin

section \<open>JavaScript values\<close>

text \<open>
  The form engine (\<^verbatim>\<open>useForm\<close>) receives field values of type \<^verbatim>\<open>any\<close>. The values
  modelled here are the primitives and arrays: \<^verbatim>\<open>undefined\<close>, \<^verbatim>\<open>null\<close>, booleans,
  numbers, strings and arrays, and the members every plain object inherits from
  \<^verbatim>\<open>Object.prototype\<close>: its functions (a function is modelled by its \<^verbatim>\<open>length\<close>, the
  engine reads nothing else of it) and \<^verbatim>\<open>Object.prototype\<close> itself, which
  \<^verbatim>\<open>__proto__\<close> reads. Other objects, symbols and bigints are outside the model.

  A number is a finite value, \<^verbatim>\<open>NaN\<close> or one of the two infinities. The engine only
  compares numbers and tests them for truthiness, it never computes with them, so a finite
  number is modelled by the rational it denotes (every finite double is a rational; negative
  zero is identified with zero, which both operations treat alike). A string is the list of
  its code units, so \<open>length\<close> is the \<^verbatim>\<open>.length\<close> of the string.
\<close>

datatype jsnum = Fin rat | NaN | PosInf | NegInf

datatype jsval =
  Undefined | Null | Bool bool | Num jsnum | Str string | Arr "jsval list"
  | Func nat | ObjectPrototype

text \<open>
  What an evaluation throws (or the reason an awaited promise rejects with): the
  \<^verbatim>\<open>TypeError\<close> of a property read on \<^verbatim>\<open>null\<close> or \<^verbatim>\<open>undefined\<close>, or whatever
  a caller-supplied function throws.
\<close>

datatype js_error = TypeError | Thrown jsval

text \<open>\<^verbatim>\<open>!value\<close>: the falsy values are \<^verbatim>\<open>undefined\<close>, \<^verbatim>\<open>null\<close>, \<^verbatim>\<open>false\<close>,
  zero, \<^verbatim>\<open>NaN\<close> and the empty string; every array, function and object is truthy.\<close>

fun falsy :: "jsval \<Rightarrow> bool" where
  "falsy Undefined = True"
| "falsy Null = True"
| "falsy (Bool b) = (\<not> b)"
| "falsy (Num n) = (n = Fin 0 \<or> n = NaN)"
| "falsy (Str s) = (s = [])"
| "falsy (Arr xs) = False"
| "falsy (Func n) = False"
| "falsy ObjectPrototype = False"

text \<open>\<^verbatim>\<open>a < b\<close> on numbers: false as soon as one side is \<^verbatim>\<open>NaN\<close>.
  \<^verbatim>\<open>a > b\<close> is \<open>num_less b a\<close>.\<close>

fun num_less :: "jsnum \<Rightarrow> jsnum \<Rightarrow> bool" where
  "num_less (Fin a) (Fin b) = (a < b)"
| "num_less (Fin a) PosInf = True"
| "num_less NegInf (Fin b) = True"
| "num_less NegInf PosInf = True"
| "num_less a b = False"

text \<open>
  \<^verbatim>\<open>value.length\<close>, as the number the comparisons of the engine see. Reading a property of
  \<^verbatim>\<open>undefined\<close> or \<^verbatim>\<open>null\<close> throws a \<^verbatim>\<open>TypeError\<close>. A boolean, a number and
  \<^verbatim>\<open>Object.prototype\<close> have no \<^verbatim>\<open>length\<close>: the read gives \<^verbatim>\<open>undefined\<close>, which
  \<^verbatim>\<open><\<close> and \<^verbatim>\<open>>\<close> convert to \<^verbatim>\<open>NaN\<close>.
\<close>

fun length_of :: "jsval \<Rightarrow> js_error + jsnum" where
  "length_of Undefined = Inl TypeError"
| "length_of Null = Inl TypeError"
| "length_of (Bool b) = Inr NaN"
| "length_of (Num n) = Inr NaN"
| "length_of (Str s) = Inr (Fin (of_nat (length s)))"
| "length_of (Arr xs) = Inr (Fin (of_nat (length xs)))"
| "length_of (Func n) = Inr (Fin (of_nat n))"
| "length_of ObjectPrototype = Inr NaN"

text \<open>
  The members of \<^verbatim>\<open>Object.prototype\<close>, which every plain object inherits: eleven
  functions, each with its \<^verbatim>\<open>length\<close>, and the accessor \<^verbatim>\<open>__proto__\<close>, which reads
  \<^verbatim>\<open>Object.prototype\<close> itself on a plain object.
\<close>

definition object_prototype :: "string \<rightharpoonup> jsval" where
  "object_prototype =
     map_of
       [(''constructor'', Func 1), (''hasOwnProperty'', Func 1), (''isPrototypeOf'', Func 1),
        (''propertyIsEnumerable'', Func 1), (''toLocaleString'', Func 0), (''toString'', Func 0),
        (''valueOf'', Func 0), (''__defineGetter__'', Func 2), (''__defineSetter__'', Func 2),
        (''__lookupGetter__'', Func 1), (''__lookupSetter__'', Func 1),
        (''__proto__'', ObjectPrototype)]"

text \<open>
  \<^verbatim>\<open>obj[name]\<close> on a plain object, given by the map of its own properties: the own
  property when there is one, else the member inherited from \<^verbatim>\<open>Object.prototype\<close>, else
  \<^verbatim>\<open>undefined\<close>.
\<close>

definition prop_of :: "(string \<rightharpoonup> jsval) \<Rightarrow> string \<Rightarrow> jsval" where
  "prop_of obj name =
     (case obj name of
        Some v \<Rightarrow> v
      | None \<Rightarrow> (case object_prototype name of Some v \<Rightarrow> v | None \<Rightarrow> Undefined))"

section \<open>Rules, configuration and state\<close>

text \<open>
  \<^verbatim>\<open>interface ValidationRule\<close>. Every rule is optional. \<open>minLength\<close> and \<open>maxLength\<close>
  are a bound and a message. \<open>pattern\<close> is a regular expression and a message; the
  expression is modelled by its \<^verbatim>\<open>test\<close> method, the conversion of the argument to a string
  included, for an expression without the \<^verbatim>\<open>g\<close> and \<^verbatim>\<open>y\<close> flags (so that \<^verbatim>\<open>test\<close>
  has no state). \<open>custom\<close> is a validator and a message; the validator is modelled by the
  outcome of awaiting its result: the boolean it resolves to, or what it throws or rejects with.
\<close>

record ValidationRule =
  required :: "string option"
  minLength :: "(jsnum \<times> string) option"
  maxLength :: "(jsnum \<times> string) option"
  pattern :: "((jsval \<Rightarrow> bool) \<times> string) option"
  custom :: "((jsval \<Rightarrow> js_error + bool) \<times> string) option"

text \<open>
  \<^verbatim>\<open>interface ValidationRules\<close>: an object from field names to rules, kept as the list of
  its own entries in the order \<^verbatim>\<open>for ... in\<close> enumerates them (the members inherited
  from \<^verbatim>\<open>Object.prototype\<close> are not enumerable). \<^verbatim>\<open>validationRules[name]\<close> is
  \<open>map_of\<close>: for a name without an entry the read gives \<^verbatim>\<open>undefined\<close> or an inherited
  member, and neither has any of the five rule properties, so that the chain assigns nothing
  in both cases.
\<close>

type_synonym ValidationRules = "(string \<times> ValidationRule) list"

type_synonym FormErrors = "string \<rightharpoonup> string"

record UseFormProps =
  initialValues :: "string \<rightharpoonup> jsval"
  validationRules :: ValidationRules
  debounceTime :: nat

text \<open>
  A timeout of the host that has been set and has neither fired nor been cleared: its handle,
  the time it is due, and the arguments its callback passes to \<^verbatim>\<open>validateField\<close> (the
  engine sets no other timeouts).
\<close>

record timeout =
  timer_id :: nat
  fires_at :: nat
  arg_name :: string
  arg_value :: jsval

text \<open>
  The state of one engine: the four \<^verbatim>\<open>useState\<close> cells, the variable
  \<^verbatim>\<open>debounceTimer\<close> of the closure that is the current \<^verbatim>\<open>debouncedValidateField\<close>
  (\<open>None\<close> while it is \<^verbatim>\<open>undefined\<close>), and the host's clock (in milliseconds) and timer
  table. The content of the configuration is the same at every render; whether
  \<^verbatim>\<open>validationRules\<close> is also the same object at every render is up to the caller, and
  \<open>render\<close> below takes it as an argument.
\<close>

record engine =
  values' :: "string \<rightharpoonup> jsval"
  errors :: FormErrors
  isSubmitting :: bool
  isValidating :: bool
  debounceTimer :: "nat option"
  clock :: nat
  nextTimerId :: nat
  timeouts :: "timeout list"

definition useForm :: "UseFormProps \<Rightarrow> engine" where
  "useForm props =
     \<lparr>values' = initialValues props, errors = Map.empty, isSubmitting = False,
      isValidating = False, debounceTimer = None, clock = 0, nextTimerId = 1, timeouts = []\<rparr>"

section \<open>Evaluating the rules of one field\<close>

text \<open>
  The \<^verbatim>\<open>if\<close> / \<^verbatim>\<open>else if\<close> chain that \<^verbatim>\<open>validateField\<close> and the loop of
  \<^verbatim>\<open>validateForm\<close> both contain, word for word. Each condition gives the message of its
  branch when it holds, and can throw where the source can.
\<close>

definition required_cond :: "ValidationRule \<Rightarrow> jsval \<Rightarrow> string option" where
  \<comment> \<open>\<^verbatim>\<open>rules.required && !value\<close>: an empty message is falsy, as a missing one is\<close>
  "required_cond r v =
     (case required r of
        None \<Rightarrow> None
      | Some m \<Rightarrow> if m \<noteq> [] \<and> falsy v then Some m else None)"

definition minLength_cond :: "ValidationRule \<Rightarrow> jsval \<Rightarrow> js_error + string option" where
  \<comment> \<open>\<^verbatim>\<open>rules.minLength && value.length < rules.minLength.value\<close>\<close>
  "minLength_cond r v =
     (case minLength r of
        None \<Rightarrow> Inr None
      | Some (bound, m) \<Rightarrow>
          (case length_of v of
             Inl e \<Rightarrow> Inl e
           | Inr len \<Rightarrow> Inr (if num_less len bound then Some m else None)))"

definition maxLength_cond :: "ValidationRule \<Rightarrow> jsval \<Rightarrow> js_error + string option" where
  \<comment> \<open>\<^verbatim>\<open>rules.maxLength && value.length > rules.maxLength.value\<close>\<close>
  "maxLength_cond r v =
     (case maxLength r of
        None \<Rightarrow> Inr None
      | Some (bound, m) \<Rightarrow>
          (case length_of v of
             Inl e \<Rightarrow> Inl e
           | Inr len \<Rightarrow> Inr (if num_less bound len then Some m else None)))"

definition pattern_cond :: "ValidationRule \<Rightarrow> jsval \<Rightarrow> string option" where
  \<comment> \<open>\<^verbatim>\<open>rules.pattern && !rules.pattern.value.test(value)\<close>\<close>
  "pattern_cond r v =
     (case pattern r of
        None \<Rightarrow> None
      | Some (test, m) \<Rightarrow> if \<not> test v then Some m else None)"

definition custom_branch :: "ValidationRule \<Rightarrow> jsval \<Rightarrow> js_error + string" where
  \<comment> \<open>\<^verbatim>\<open>else if (rules.custom) { const isValid = await ...; if (!isValid) error = ... }\<close>\<close>
  "custom_branch r v =
     (case custom r of
        None \<Rightarrow> Inr []
      | Some (validate, m) \<Rightarrow>
          (case validate v of
             Inl e \<Rightarrow> Inl e
           | Inr isValid \<Rightarrow> Inr (if \<not> isValid then m else [])))"

text \<open>
  The value of \<^verbatim>\<open>error\<close> after the chain, for \<^verbatim>\<open>rules = validationRules[name]\<close>
  (\<open>None\<close> when the name has no rules): it starts as the empty string and is assigned by
  the first branch whose condition holds.
\<close>

definition rule_error :: "ValidationRule option \<Rightarrow> jsval \<Rightarrow> js_error + string" where
  "rule_error rules v =
     (case rules of
        None \<Rightarrow> Inr []
      | Some r \<Rightarrow>
          (case required_cond r v of
             Some m \<Rightarrow> Inr m
           | None \<Rightarrow>
               (case minLength_cond r v of
                  Inl e \<Rightarrow> Inl e
                | Inr (Some m) \<Rightarrow> Inr m
                | Inr None \<Rightarrow>
                    (case maxLength_cond r v of
                       Inl e \<Rightarrow> Inl e
                     | Inr (Some m) \<Rightarrow> Inr m
                     | Inr None \<Rightarrow>
                         (case pattern_cond r v of
                            Some m \<Rightarrow> Inr m
                          | None \<Rightarrow> custom_branch r v)))))"

section \<open>The operations of the engine\<close>

text \<open>
  Every operation takes the state and returns the new one. An operation that can throw
  returns, beside the state it leaves, \<open>Inl\<close> of what it threw or \<open>Inr\<close> of its result.
\<close>

definition validateField ::
  "UseFormProps \<Rightarrow> string \<Rightarrow> jsval \<Rightarrow> engine \<Rightarrow> (js_error + unit) \<times> engine" where
  "validateField props name v st =
     (case rule_error (map_of (validationRules props) name) v of
        Inl e \<Rightarrow> (Inl e, st)
      | Inr error \<Rightarrow> (Inr (), st\<lparr>errors := (errors st)(name \<mapsto> error)\<rparr>))"

text \<open>\<^verbatim>\<open>clearTimeout\<close> and \<^verbatim>\<open>setTimeout\<close> of the host. Clearing \<^verbatim>\<open>undefined\<close>, or a
  handle that is no longer pending, does nothing.\<close>

definition clearTimeout :: "nat option \<Rightarrow> engine \<Rightarrow> engine" where
  "clearTimeout h st = st\<lparr>timeouts := filter (\<lambda>t. Some (timer_id t) \<noteq> h) (timeouts st)\<rparr>"

definition setTimeout :: "nat \<Rightarrow> string \<Rightarrow> jsval \<Rightarrow> engine \<Rightarrow> nat \<times> engine" where
  "setTimeout delay name v st =
     (nextTimerId st,
      st\<lparr>nextTimerId := Suc (nextTimerId st),
         timeouts := timeouts st @
           [\<lparr>timer_id = nextTimerId st, fires_at = clock st + delay,
             arg_name = name, arg_value = v\<rparr>]\<rparr>)"

text \<open>The function \<^verbatim>\<open>debounce(validateField, debounceTime)\<close> returns, acting on the
  \<^verbatim>\<open>debounceTimer\<close> of the closure that is current.\<close>

definition debouncedValidateField :: "UseFormProps \<Rightarrow> string \<Rightarrow> jsval \<Rightarrow> engine \<Rightarrow> engine" where
  "debouncedValidateField props name v st =
     (case setTimeout (debounceTime props) name v (clearTimeout (debounceTimer st) st) of
        (h, st') \<Rightarrow> st'\<lparr>debounceTimer := Some h\<rparr>)"

text \<open>
  A re-render of the component.
  \<^verbatim>\<open>useCallback(debounce(validateField, debounceTime), [validateField, debounceTime])\<close>
  keeps the closure of the render before when \<^verbatim>\<open>validateField\<close> and
  \<^verbatim>\<open>debounceTime\<close> are what they were, and \<^verbatim>\<open>validateField\<close> is memoised on
  \<^verbatim>\<open>[validationRules]\<close>. So when \<^verbatim>\<open>validationRules\<close> is the same object as at the
  render before (\<open>same\<close>), nothing changes; when it is a new object (rules written inline
  in the component, or the default \<^verbatim>\<open>{}\<close>), the current closure becomes the one
  \<^verbatim>\<open>debounce\<close> has just made, whose \<^verbatim>\<open>debounceTimer\<close> is \<^verbatim>\<open>undefined\<close>. The
  timeouts the old closure has set stay pending. (\<^verbatim>\<open>debounceTime\<close> is a number of the
  configuration and keeps its value.)
\<close>

definition render :: "bool \<Rightarrow> engine \<Rightarrow> engine" where
  "render same st = (if same then st else st\<lparr>debounceTimer := None\<rparr>)"

definition handleChange :: "UseFormProps \<Rightarrow> string \<Rightarrow> jsval \<Rightarrow> engine \<Rightarrow> engine" where
  "handleChange props name v st =
     debouncedValidateField props name v (st\<lparr>values' := (values' st)(name \<mapsto> v)\<rparr>)"

text \<open>The loop of \<^verbatim>\<open>validateForm\<close> over the names still to visit, with \<^verbatim>\<open>newErrors\<close>
  as built so far.\<close>

fun validate_fields ::
  "ValidationRules \<Rightarrow> (string \<rightharpoonup> jsval) \<Rightarrow> string list \<Rightarrow> FormErrors \<Rightarrow> js_error + FormErrors" where
  "validate_fields vr vals [] newErrors = Inr newErrors"
| "validate_fields vr vals (name # names) newErrors =
     (case rule_error (map_of vr name) (prop_of vals name) of
        Inl e \<Rightarrow> Inl e
      | Inr error \<Rightarrow>
          validate_fields vr vals names
            (if error \<noteq> [] then newErrors(name \<mapsto> error) else newErrors))"

definition validateForm ::
  "UseFormProps \<Rightarrow> (string \<rightharpoonup> jsval) \<Rightarrow> engine \<Rightarrow> (js_error + bool) \<times> engine" where
  "validateForm props vals st =
     (let st1 = st\<lparr>isValidating := True\<rparr> in
      case validate_fields (validationRules props) vals (map fst (validationRules props)) Map.empty of
        Inl e \<Rightarrow> (Inl e, st1)
      | Inr newErrors \<Rightarrow>
          (Inr (newErrors = Map.empty), st1\<lparr>errors := newErrors, isValidating := False\<rparr>))"

text \<open>
  The handler \<^verbatim>\<open>handleSubmit(callback)\<close> returns. The callback acts on a world \<open>'w\<close>
  outside the engine and may throw after it has acted; \<^verbatim>\<open>values\<close> is the state's, as
  the handler closes over the values of the current render. (\<^verbatim>\<open>event.preventDefault()\<close>
  acts on the event only and is left out.)
\<close>

definition handleSubmit ::
  "UseFormProps \<Rightarrow> ((string \<rightharpoonup> jsval) \<Rightarrow> 'w \<Rightarrow> (js_error + unit) \<times> 'w) \<Rightarrow> engine \<Rightarrow> 'w
     \<Rightarrow> (js_error + unit) \<times> engine \<times> 'w" where
  "handleSubmit props callback st w =
     (case validateForm props (values' st) (st\<lparr>isSubmitting := True\<rparr>) of
        (Inl e, st') \<Rightarrow> (Inl e, st', w)
      | (Inr valid, st') \<Rightarrow>
          if valid then
            (case callback (values' st) w of
               (Inl e, w') \<Rightarrow> (Inl e, st', w')
             | (Inr u, w') \<Rightarrow> (Inr (), st'\<lparr>isSubmitting := False\<rparr>, w'))
          else (Inr (), st'\<lparr>isSubmitting := False\<rparr>, w))"

definition resetForm :: "UseFormProps \<Rightarrow> engine \<Rightarrow> engine" where
  "resetForm props st = st\<lparr>values' := initialValues props, errors := Map.empty\<rparr>"


section \<open>The host's clock and timers\<close>

text \<open>
  The callbacks of the timeouts that have come due run one after the other, each a call of
  \<^verbatim>\<open>validateField\<close>. A call that throws rejects a promise nobody awaits and leaves the
  state as it was.
\<close>

fun run_timeouts :: "UseFormProps \<Rightarrow> timeout list \<Rightarrow> engine \<Rightarrow> engine" where
  "run_timeouts props [] st = st"
| "run_timeouts props (t # ts) st =
     run_timeouts props ts (snd (validateField props (arg_name t) (arg_value t) st))"

text \<open>
  \<open>d\<close> milliseconds pass with no call from the user interface: the timeouts due by then fire,
  the earliest first. The result lists the arguments of the calls of \<^verbatim>\<open>validateField\<close>
  that were run, in order.
\<close>

definition elapse :: "UseFormProps \<Rightarrow> nat \<Rightarrow> engine \<Rightarrow> (string \<times> jsval) list \<times> engine" where
  "elapse props d st =
     (let now = clock st + d;
          due = sort_key fires_at (filter (\<lambda>t. fires_at t \<le> now) (timeouts st));
          rest = filter (\<lambda>t. \<not> fires_at t \<le> now) (timeouts st)
      in (map (\<lambda>t. (arg_name t, arg_value t)) due,
          run_timeouts props due (st\<lparr>clock := now, timeouts := rest\<rparr>)))"

datatype event = Change string jsval | Render bool | Elapse nat

text \<open>A history of \<^verbatim>\<open>handleChange\<close> calls, re-renders and pauses; the result lists the
  validations that the timers ran.\<close>

fun run :: "UseFormProps \<Rightarrow> event list \<Rightarrow> engine \<Rightarrow> (string \<times> jsval) list \<times> engine" where
  "run props [] st = ([], st)"
| "run props (Change name v # es) st = run props es (handleChange props name v st)"
| "run props (Render same # es) st = run props es (render same st)"
| "run props (Elapse d # es) st =
     (case elapse props d st of
        (fired, st') \<Rightarrow> (case run props es st' of (fired', st'') \<Rightarrow> (fired @ fired', st'')))"

text \<open>
  A call of \<^verbatim>\<open>handleChange\<close> in a burst: the field and the value, whether
  \<^verbatim>\<open>validationRules\<close> is the same object at the re-renders that follow the call (its
  \<^verbatim>\<open>setValues\<close> causes one), and the pause before the next call.
\<close>

record change =
  ch_name :: string
  ch_value :: jsval
  ch_same :: bool
  ch_pause :: nat

fun burst :: "change list \<Rightarrow> event list" where
  "burst [] = []"
| "burst (c # cs) =
     Change (ch_name c) (ch_value c) # Render (ch_same c) # Elapse (ch_pause c) # burst cs"

text \<open>The pending timeouts as the validations they stand for.\<close>

definition pending :: "engine \<Rightarrow> (string \<times> jsval) list" where
  "pending st = map (\<lambda>t. (arg_name t, arg_value t)) (timeouts st)"

text \<open>Every pending timeout is the one \<^verbatim>\<open>debounceTimer\<close> holds: true of a new engine and
  kept by every operation, and by every re-render at which \<^verbatim>\<open>validationRules\<close> is the
  same object.\<close>

definition timer_inv :: "engine \<Rightarrow> bool" where
  "timer_inv st = (\<forall>t \<in> set (timeouts st). debounceTimer st = Some (timer_id t))"

section \<open>Rules as an ordered list of checks\<close>

text \<open>
  The rules a field has, in the order required, minLength, maxLength, pattern, custom. Each is
  the condition under which the rule fails on a value (which may throw), with the message of
  the rule. The conditions are those of the source; the list is what the statements about
  "the first failing rule" and "all rules pass" refer to.
\<close>

type_synonym check = "(jsval \<Rightarrow> js_error + bool) \<times> string"

definition rule_checks :: "ValidationRule \<Rightarrow> check list" where
  "rule_checks r =
     (case required r of None \<Rightarrow> [] | Some m \<Rightarrow> [(\<lambda>v. Inr (m \<noteq> [] \<and> falsy v), m)]) @
     (case minLength r of None \<Rightarrow> []
      | Some (bound, m) \<Rightarrow> [(\<lambda>v. map_sum id (\<lambda>len. num_less len bound) (length_of v), m)]) @
     (case maxLength r of None \<Rightarrow> []
      | Some (bound, m) \<Rightarrow> [(\<lambda>v. map_sum id (\<lambda>len. num_less bound len) (length_of v), m)]) @
     (case pattern r of None \<Rightarrow> [] | Some (test, m) \<Rightarrow> [(\<lambda>v. Inr (\<not> test v), m)]) @
     (case custom r of None \<Rightarrow> []
      | Some (validate, m) \<Rightarrow> [(\<lambda>v. map_sum id Not (validate v), m)])"

definition field_checks :: "UseFormProps \<Rightarrow> string \<Rightarrow> check list" where
  "field_checks props name =
     (case map_of (validationRules props) name of None \<Rightarrow> [] | Some r \<Rightarrow> rule_checks r)"

fun first_failing :: "check list \<Rightarrow> jsval \<Rightarrow> js_error + string" where
  "first_failing [] v = Inr []"
| "first_failing (c # cs) v =
     (case fst c v of
        Inl e \<Rightarrow> Inl e
      | Inr fails \<Rightarrow> if fails then Inr (snd c) else first_failing cs v)"

text \<open>The messages of all the rules that fail on a value, each rule taken by itself.\<close>

definition failing_messages :: "check list \<Rightarrow> jsval \<Rightarrow> string list" where
  "failing_messages cs v = map snd (filter (\<lambda>c. fst c v = Inr True) cs)"

text \<open>The rules of a field other than \<^verbatim>\<open>required\<close>.\<close>

definition other_checks :: "ValidationRule \<Rightarrow> check list" where
  "other_checks r = rule_checks (r\<lparr>required := None\<rparr>)"

section \<open>Example configurations\<close>

text \<open>The rules of \<^verbatim>\<open>username\<close> in the repository's test, with its asynchronous validator
  \<^verbatim>\<open>value !== 'taken'\<close>.\<close>

definition username_rules :: ValidationRule where
  "username_rules =
     \<lparr>required = Some ''Username is required'',
      minLength = Some (Fin 3, ''Username must be at least 3 characters''),
      maxLength = None, pattern = None,
      custom = Some (\<lambda>v. Inr (v \<noteq> Str ''taken''), ''Username is already taken'')\<rparr>"

text \<open>An age rule in the manner of the test's, with the validator
  \<^verbatim>\<open>typeof value === 'number' && value >= 18\<close>.\<close>

definition age_rules :: ValidationRule where
  "age_rules =
     \<lparr>required = Some ''Age is required'', minLength = None, maxLength = None, pattern = None,
      custom = Some (\<lambda>v. Inr (case v of Num n \<Rightarrow> n = Fin 18 \<or> num_less (Fin 18) n | _ \<Rightarrow> False),
                     ''You must be at least 18 years old'')\<rparr>"

definition signup_props :: UseFormProps where
  "signup_props =
     \<lparr>initialValues = [''username'' \<mapsto> Str [], ''age'' \<mapsto> Num (Fin 0)],
      validationRules = [(''username'', username_rules), (''age'', age_rules)],
      debounceTime = 300\<rparr>"

text \<open>An optional field with a length rule only.\<close>

definition bio_props :: UseFormProps where
  "bio_props =
     \<lparr>initialValues = Map.empty,
      validationRules =
        [(''bio'', \<lparr>required = None, minLength = Some (Fin 3, ''Bio is too short''),
                    maxLength = None, pattern = None, custom = None\<rparr>)],
      debounceTime = 300\<rparr>"

text \<open>A field whose \<^verbatim>\<open>required\<close> message is the empty string.\<close>

definition nick_props :: UseFormProps where
  "nick_props =
     \<lparr>initialValues = Map.empty,
      validationRules =
        [(''nick'', \<lparr>required = Some [], minLength = Some (Fin 3, ''Nick is too short''),
                     maxLength = None, pattern = None, custom = None\<rparr>)],
      debounceTime = 300\<rparr>"

text \<open>A field whose validator throws.\<close>

definition lookup_props :: UseFormProps where
  "lookup_props =
     \<lparr>initialValues = Map.empty,
      validationRules =
        [(''code'', \<lparr>required = None, minLength = None, maxLength = None, pattern = None,
                     custom = Some (\<lambda>v. Inl (Thrown (Str ''offline'')), ''Unknown code'')\<rparr>)],
      debounceTime = 300\<rparr>"


text \<open>A submit callback that counts its invocations, and one that throws.\<close>

definition counting_callback :: "(string \<rightharpoonup> jsval) \<Rightarrow> nat \<Rightarrow> (js_error + unit) \<times> nat" where
  "counting_callback vals n = (Inr (), Suc n)"

definition failing_callback :: "(string \<rightharpoonup> jsval) \<Rightarrow> nat \<Rightarrow> (js_error + unit) \<times> nat" where
  "failing_callback vals n = (Inl (Thrown (Str ''request failed'')), Suc n)"

text \<open>The sign-up form filled in: with a user name the validator rejects, and with values
  that pass every rule.\<close>

definition taken_state :: engine where
  "taken_state =
     (useForm signup_props)\<lparr>values' := [''username'' \<mapsto> Str ''taken'', ''age'' \<mapsto> Num (Fin 30)]\<rparr>"

definition valid_state :: engine where
  "valid_state =
     (useForm signup_props)\<lparr>values' := [''username'' \<mapsto> Str ''alice'', ''age'' \<mapsto> Num (Fin 30)]\<rparr>"

section \<open>The chain finds the first failing rule\<close>

lemmas chain_defs = rule_error_def required_cond_def minLength_cond_def maxLength_cond_def
  pattern_cond_def custom_branch_def

lemma rule_error_first_failing:
  "rule_error (Some r) v = first_failing (rule_checks r) v"
  by (simp add: rule_error_def rule_checks_def required_cond_def minLength_cond_def
      maxLength_cond_def pattern_cond_def custom_branch_def
      split: option.splits sum.splits prod.splits)

lemma field_error_first_failing:
  "rule_error (map_of (validationRules props) name) v = first_failing (field_checks props name) v"
  by (cases "map_of (validationRules props) name")
     (simp_all add: field_checks_def rule_error_first_failing, simp add: rule_error_def)

lemma first_failing_at:
  "i < length cs \<Longrightarrow> fst (cs ! i) v = Inr True \<Longrightarrow> \<forall>j<i. fst (cs ! j) v = Inr False
     \<Longrightarrow> first_failing cs v = Inr (snd (cs ! i))"
proof (induction cs arbitrary: i)
  case Nil
  then show ?case by simp
next
  case (Cons c cs)
  show ?case
  proof (cases i)
    case 0
    with Cons.prems show ?thesis by simp
  next
    case (Suc k)
    from Cons.prems Suc have "fst c v = Inr False" by auto
    moreover have "first_failing cs v = Inr (snd (cs ! k))"
      using Cons.prems Suc by (intro Cons.IH) auto
    ultimately show ?thesis using Suc by simp
  qed
qed

lemma first_failing_none:
  "\<forall>c \<in> set cs. fst c v = Inr False \<Longrightarrow> first_failing cs v = Inr []"
  by (induction cs) auto

lemma first_failing_hd:
  "first_failing cs v = Inr m \<Longrightarrow> failing_messages cs v \<noteq> [] \<Longrightarrow>
   m = hd (failing_messages cs v)"
proof (induction cs)
  case Nil
  then show ?case by (simp add: failing_messages_def)
next
  case (Cons c cs)
  show ?case
  proof (cases "fst c v")
    case (Inl e)
    with Cons.prems show ?thesis by simp
  next
    case (Inr fails)
    with Cons show ?thesis by (cases fails) (simp_all add: failing_messages_def)
  qed
qed

lemma rule_checks_required:
  "required r = Some m \<Longrightarrow>
   rule_checks r = (\<lambda>v. Inr (m \<noteq> [] \<and> falsy v), m) # other_checks r"
  by (simp add: rule_checks_def other_checks_def)

lemma first_failing_no_throw:
  "\<forall>c \<in> set cs. \<not> isl (fst c v) \<Longrightarrow>
   first_failing cs v = Inr (case failing_messages cs v of [] \<Rightarrow> [] | m # ms \<Rightarrow> m)"
proof (induction cs)
  case Nil
  then show ?case by (simp add: failing_messages_def)
next
  case (Cons c cs)
  from Cons.prems obtain fails where f: "fst c v = Inr fails"
    by (cases "fst c v") auto
  from Cons have "first_failing cs v = Inr (case failing_messages cs v of [] \<Rightarrow> [] | m # ms \<Rightarrow> m)"
    by simp
  then show ?case
    by (cases fails) (simp_all add: f failing_messages_def)
qed

lemma first_failing_append_pass:
  "\<forall>c \<in> set cs. fst c v = Inr False \<Longrightarrow> first_failing (cs @ ds) v = first_failing ds v"
  by (induction cs) simp_all

lemma rule_checks_custom:
  "custom r = Some (validate, m) \<Longrightarrow>
   rule_checks r = rule_checks (r\<lparr>custom := None\<rparr>) @ [(\<lambda>v. map_sum id Not (validate v), m)]"
  by (simp add: rule_checks_def)

text \<open>
  Claim C1, as amended. For every field name and value, \<^verbatim>\<open>validateField(name, value)\<close>
  goes through the rules of the field in the order required, minLength, maxLength, pattern,
  custom (the order of \<open>field_checks\<close>). When rule \<open>i\<close> fails on the value and every rule
  before it passes (none of them throws), the call stops there and writes the message of
  rule \<open>i\<close> into \<^verbatim>\<open>errors[name]\<close>, whatever the rules after it would do; when all the rules
  pass, and when the name has no rules, it writes the empty message. So on every value on
  which no rule of the field throws, the call returns and writes the message of the first
  failing rule, or the empty message when no rule fails. When all the rules before custom
  pass and the custom validator throws or rejects, the call rejects with the same reason and
  writes nothing. A rule fails on a value when its condition in the source holds.
\<close>

theorem validateField_first_failing_rule:
  "(i < length (field_checks props name) \<and> fst (field_checks props name ! i) v = Inr True \<and>
      (\<forall>j<i. fst (field_checks props name ! j) v = Inr False)
      \<longrightarrow> validateField props name v st =
            (Inr (), st\<lparr>errors := (errors st)(name \<mapsto> snd (field_checks props name ! i))\<rparr>)) \<and>
   ((\<forall>c \<in> set (field_checks props name). fst c v = Inr False)
      \<longrightarrow> validateField props name v st = (Inr (), st\<lparr>errors := (errors st)(name \<mapsto> [])\<rparr>)) \<and>
   (map_of (validationRules props) name = None
      \<longrightarrow> validateField props name v st = (Inr (), st\<lparr>errors := (errors st)(name \<mapsto> [])\<rparr>)) \<and>
   ((\<forall>c \<in> set (field_checks props name). \<not> isl (fst c v))
      \<longrightarrow> validateField props name v st =
            (Inr (), st\<lparr>errors := (errors st)(name \<mapsto>
               (case failing_messages (field_checks props name) v of [] \<Rightarrow> [] | m # ms \<Rightarrow> m))\<rparr>)) \<and>
   (map_of (validationRules props) name = Some r \<and> custom r = Some (validate, msg) \<and>
      validate v = Inl e \<and> (\<forall>c \<in> set (rule_checks (r\<lparr>custom := None\<rparr>)). fst c v = Inr False)
      \<longrightarrow> validateField props name v st = (Inl e, st))"
proof -
  let ?cs = "field_checks props name"
  have run: "validateField props name v st =
      (case first_failing ?cs v of
         Inl e \<Rightarrow> (Inl e, st)
       | Inr m \<Rightarrow> (Inr (), st\<lparr>errors := (errors st)(name \<mapsto> m)\<rparr>))"
    by (simp add: validateField_def field_error_first_failing)
  have none: "?cs = []" if "map_of (validationRules props) name = None"
    using that by (simp add: field_checks_def)
  have a: "validateField props name v st =
             (Inr (), st\<lparr>errors := (errors st)(name \<mapsto> snd (?cs ! i))\<rparr>)"
    if "i < length ?cs" "fst (?cs ! i) v = Inr True" "\<forall>j<i. fst (?cs ! j) v = Inr False"
    using that by (simp add: run first_failing_at)
  have b: "validateField props name v st = (Inr (), st\<lparr>errors := (errors st)(name \<mapsto> [])\<rparr>)"
    if "\<forall>c \<in> set ?cs. fst c v = Inr False"
    using that by (simp add: run first_failing_none)
  have c: "validateField props name v st = (Inr (), st\<lparr>errors := (errors st)(name \<mapsto> [])\<rparr>)"
    if "map_of (validationRules props) name = None"
    using that by (simp add: run none)
  have d: "validateField props name v st =
            (Inr (), st\<lparr>errors := (errors st)(name \<mapsto>
               (case failing_messages ?cs v of [] \<Rightarrow> [] | m # ms \<Rightarrow> m))\<rparr>)"
    if "\<forall>c \<in> set ?cs. \<not> isl (fst c v)"
    using that by (simp add: run first_failing_no_throw)
  have e: "validateField props name v st = (Inl e, st)"
    if "map_of (validationRules props) name = Some r" "custom r = Some (validate, msg)"
       "validate v = Inl e" "\<forall>c \<in> set (rule_checks (r\<lparr>custom := None\<rparr>)). fst c v = Inr False"
  proof -
    have "?cs = rule_checks (r\<lparr>custom := None\<rparr>) @ [(\<lambda>v. map_sum id Not (validate v), msg)]"
      using that(1,2) by (simp add: field_checks_def rule_checks_custom)
    then show ?thesis
      using that(3,4) by (simp add: run first_failing_append_pass)
  qed
  from a b c d e show ?thesis by blast
qed

text \<open>
  The user name of the test: \<^verbatim>\<open>'ab'\<close> passes required, fails minLength and so reports the
  minLength message; \<^verbatim>\<open>'bob'\<close> passes everything; \<^verbatim>\<open>email\<close> has no rules here. The
  validator of \<^verbatim>\<open>code\<close> throws, and nothing is written.
\<close>

theorem validateField_first_failing_rule_witness:
  "validateField signup_props ''username'' (Str ''ab'') (useForm signup_props) =
     (Inr (), (useForm signup_props)
        \<lparr>errors := [''username'' \<mapsto> ''Username must be at least 3 characters'']\<rparr>) \<and>
   validateField signup_props ''username'' (Str ''bob'') (useForm signup_props) =
     (Inr (), (useForm signup_props)\<lparr>errors := [''username'' \<mapsto> []]\<rparr>) \<and>
   validateField signup_props ''email'' (Str ''x'') (useForm signup_props) =
     (Inr (), (useForm signup_props)\<lparr>errors := [''email'' \<mapsto> []]\<rparr>) \<and>
   validateField signup_props ''username'' (Str ''taken'') (useForm signup_props) =
     (Inr (), (useForm signup_props)\<lparr>errors := [''username'' \<mapsto> ''Username is already taken'']\<rparr>) \<and>
   validateField lookup_props ''code'' (Str ''A1'') (useForm lookup_props) =
     (Inl (Thrown (Str ''offline'')), useForm lookup_props)"
proof -
  have cs: "field_checks signup_props ''username'' = rule_checks username_rules"
    by (simp add: field_checks_def signup_props_def)
  have len: "length (rule_checks username_rules) = 3"
    by (simp add: rule_checks_def username_rules_def)
  have fails: "fst (rule_checks username_rules ! Suc 0) (Str ''ab'') = Inr True"
    by (simp add: rule_checks_def username_rules_def)
  have before: "\<forall>j<Suc 0. fst (rule_checks username_rules ! j) (Str ''ab'') = Inr False"
    by (simp add: rule_checks_def username_rules_def)
  have msg: "snd (rule_checks username_rules ! Suc 0) = ''Username must be at least 3 characters''"
    by (simp add: rule_checks_def username_rules_def)
  have pass: "\<forall>c \<in> set (rule_checks username_rules). fst c (Str ''bob'') = Inr False"
    by (simp add: rule_checks_def username_rules_def)
  have norules: "map_of (validationRules signup_props) ''email'' = None"
    by (simp add: signup_props_def)
  have nothrow: "\<forall>c \<in> set (rule_checks username_rules). \<not> isl (fst c (Str ''taken''))"
    by (simp add: rule_checks_def username_rules_def)
  have fm: "failing_messages (rule_checks username_rules) (Str ''taken'') =
              [''Username is already taken'']"
    by (simp add: failing_messages_def rule_checks_def username_rules_def)
  have code: "map_of (validationRules lookup_props) ''code'' =
      Some \<lparr>required = None, minLength = None, maxLength = None, pattern = None,
            custom = Some (\<lambda>v. Inl (Thrown (Str ''offline'')), ''Unknown code'')\<rparr>"
    by (simp add: lookup_props_def)
  have e: "errors (useForm signup_props) = Map.empty"
    by (simp add: useForm_def)
  have w1: "validateField signup_props ''username'' (Str ''ab'') (useForm signup_props) =
     (Inr (), (useForm signup_props)
        \<lparr>errors := [''username'' \<mapsto> ''Username must be at least 3 characters'']\<rparr>)"
    using validateField_first_failing_rule
            [of "Suc 0" signup_props "''username''" "Str ''ab''" "useForm signup_props"]
    by (simp add: cs len fails before msg e)
  have w2: "validateField signup_props ''username'' (Str ''bob'') (useForm signup_props) =
     (Inr (), (useForm signup_props)\<lparr>errors := [''username'' \<mapsto> []]\<rparr>)"
    using validateField_first_failing_rule
            [of 0 signup_props "''username''" "Str ''bob''" "useForm signup_props"]
    by (simp add: cs pass e)
  have w3: "validateField signup_props ''email'' (Str ''x'') (useForm signup_props) =
     (Inr (), (useForm signup_props)\<lparr>errors := [''email'' \<mapsto> []]\<rparr>)"
    using validateField_first_failing_rule
            [of 0 signup_props "''email''" "Str ''x''" "useForm signup_props"]
    by (simp add: norules e)
  have w4: "validateField signup_props ''username'' (Str ''taken'') (useForm signup_props) =
     (Inr (), (useForm signup_props)\<lparr>errors := [''username'' \<mapsto> ''Username is already taken'']\<rparr>)"
    using validateField_first_failing_rule
            [of 0 signup_props "''username''" "Str ''taken''" "useForm signup_props"]
    by (simp add: cs nothrow fm e)
  have w5: "validateField lookup_props ''code'' (Str ''A1'') (useForm lookup_props) =
     (Inl (Thrown (Str ''offline'')), useForm lookup_props)"
    using validateField_first_failing_rule
            [of 0 lookup_props "''code''" "Str ''A1''" "useForm lookup_props"
                "\<lparr>required = None, minLength = None, maxLength = None, pattern = None,
                  custom = Some (\<lambda>v. Inl (Thrown (Str ''offline'')), ''Unknown code'')\<rparr>"
                "\<lambda>v. Inl (Thrown (Str ''offline''))" "''Unknown code''" "Thrown (Str ''offline'')"]
    by (simp add: code rule_checks_def)
  from w1 w2 w3 w4 w5 show ?thesis by blast
qed

text \<open>
  Claim C1 as stated (for every value the call writes a message or the empty message) fails
  when the custom validator throws: no rule fails, not all rules pass, and the call rejects
  and leaves \<^verbatim>\<open>errors\<close> without an entry for the field.
\<close>

theorem validateField_throwing_validator_counterexample:
  "failing_messages (field_checks lookup_props ''code'') (Str ''A1'') = [] \<and>
   validateField lookup_props ''code'' (Str ''A1'') (useForm lookup_props) =
     (Inl (Thrown (Str ''offline'')), useForm lookup_props) \<and>
   errors (useForm lookup_props) ''code'' = None"
  by (simp add: failing_messages_def field_checks_def rule_checks_def validateField_def
      lookup_props_def useForm_def chain_defs)

section \<open>The required rule\<close>

text \<open>
  Claim C8, as amended. For every field that has a \<^verbatim>\<open>required\<close> rule: when the message of
  that rule is not the empty string, \<^verbatim>\<open>validateField\<close> with a falsy value (empty string,
  zero, \<^verbatim>\<open>NaN\<close>, \<^verbatim>\<open>false\<close>, \<^verbatim>\<open>null\<close> or \<^verbatim>\<open>undefined\<close>) writes exactly the
  required message; and with any truthy value that passes all the other rules of the field it
  writes the empty message.
\<close>

theorem required_rule_on_falsy_and_truthy:
  "map_of (validationRules props) name = Some r \<Longrightarrow> required r = Some m \<Longrightarrow>
   (falsy v \<and> m \<noteq> [] \<longrightarrow>
      validateField props name v st = (Inr (), st\<lparr>errors := (errors st)(name \<mapsto> m)\<rparr>)) \<and>
   (\<not> falsy v \<and> (\<forall>c \<in> set (other_checks r). fst c v = Inr False) \<longrightarrow>
      validateField props name v st = (Inr (), st\<lparr>errors := (errors st)(name \<mapsto> [])\<rparr>))"
proof -
  assume r: "map_of (validationRules props) name = Some r" and m: "required r = Some m"
  have run: "validateField props name v st =
      (case first_failing (rule_checks r) v of
         Inl e \<Rightarrow> (Inl e, st)
       | Inr msg \<Rightarrow> (Inr (), st\<lparr>errors := (errors st)(name \<mapsto> msg)\<rparr>))"
    by (simp add: validateField_def r rule_error_first_failing)
  show ?thesis
    by (auto simp: run rule_checks_required [OF m] first_failing_none)
qed

theorem required_rule_on_falsy_and_truthy_witness:
  "validateField signup_props ''age'' (Num (Fin 0)) (useForm signup_props) =
     (Inr (), (useForm signup_props)\<lparr>errors := [''age'' \<mapsto> ''Age is required'']\<rparr>) \<and>
   validateField signup_props ''age'' (Num (Fin 18)) (useForm signup_props) =
     (Inr (), (useForm signup_props)\<lparr>errors := [''age'' \<mapsto> []]\<rparr>)"
proof -
  have r: "map_of (validationRules signup_props) ''age'' = Some age_rules"
    by (simp add: signup_props_def)
  have m: "required age_rules = Some ''Age is required''"
    by (simp add: age_rules_def)
  have others: "\<forall>c \<in> set (other_checks age_rules). fst c (Num (Fin 18)) = Inr False"
    by (simp add: other_checks_def rule_checks_def age_rules_def)
  have e: "errors (useForm signup_props) = Map.empty"
    by (simp add: useForm_def)
  show ?thesis
    using required_rule_on_falsy_and_truthy [OF r m, of "Num (Fin 0)" "useForm signup_props"]
          required_rule_on_falsy_and_truthy [OF r m, of "Num (Fin 18)" "useForm signup_props"]
          others
    by (simp add: e)
qed

text \<open>
  Claim C8 as stated fails for a \<^verbatim>\<open>required\<close> rule whose message is the empty string: the
  source tests \<^verbatim>\<open>rules.required\<close> for truthiness, so the rule is skipped and the falsy
  value \<^verbatim>\<open>''\<close> goes on to minLength, whose message is written instead of the required one.
\<close>

theorem empty_required_message_counterexample:
  "map_of (validationRules nick_props) ''nick'' =
     Some \<lparr>required = Some [], minLength = Some (Fin 3, ''Nick is too short''),
           maxLength = None, pattern = None, custom = None\<rparr> \<and>
   falsy (Str []) \<and>
   validateField nick_props ''nick'' (Str []) (useForm nick_props) =
     (Inr (), (useForm nick_props)\<lparr>errors := [''nick'' \<mapsto> ''Nick is too short'']\<rparr>)"
  by (simp add: validateField_def nick_props_def useForm_def chain_defs)

section \<open>Several failing rules\<close>

text \<open>
  Claim C9, as amended. \<^verbatim>\<open>errors\<close> holds at most one message per field (it maps a name to
  one string), and when a value fails one or more rules of its field, the message that
  \<^verbatim>\<open>validateField\<close> records is that of the first failing rule in evaluation order.
\<close>

theorem validateField_records_first_failing:
  "validateField props name v st = (Inr (), st') \<Longrightarrow>
   failing_messages (field_checks props name) v \<noteq> [] \<Longrightarrow>
   errors st' name = Some (hd (failing_messages (field_checks props name) v))"
proof -
  assume run: "validateField props name v st = (Inr (), st')"
    and fails: "failing_messages (field_checks props name) v \<noteq> []"
  from run obtain m where m: "first_failing (field_checks props name) v = Inr m"
    and st': "st' = st\<lparr>errors := (errors st)(name \<mapsto> m)\<rparr>"
    by (auto simp: validateField_def field_error_first_failing split: sum.splits)
  from first_failing_hd [OF m fails] st' show ?thesis by simp
qed

text \<open>
  Claim C9 as stated (the last failing rule wins) fails on the user name of the test: the
  empty string fails both required and minLength, and the recorded message is the required
  one, the first; the repository's test expects the same.
\<close>

theorem last_failing_rule_counterexample:
  "failing_messages (field_checks signup_props ''username'') (Str []) =
     [''Username is required'', ''Username must be at least 3 characters''] \<and>
   validateField signup_props ''username'' (Str []) (useForm signup_props) =
     (Inr (), (useForm signup_props)\<lparr>errors := [''username'' \<mapsto> ''Username is required'']\<rparr>) \<and>
   last (failing_messages (field_checks signup_props ''username'') (Str [])) \<noteq> ''Username is required''"
  by (simp add: failing_messages_def field_checks_def rule_checks_def validateField_def
      signup_props_def username_rules_def useForm_def chain_defs)

theorem validateField_records_first_failing_witness:
  "errors (snd (validateField signup_props ''username'' (Str []) (useForm signup_props))) ''username'' =
     Some ''Username is required''"
proof -
  have run: "validateField signup_props ''username'' (Str []) (useForm signup_props) =
     (Inr (), snd (validateField signup_props ''username'' (Str []) (useForm signup_props)))"
    by (simp add: validateField_def signup_props_def username_rules_def chain_defs)
  have fm: "failing_messages (field_checks signup_props ''username'') (Str []) =
     [''Username is required'', ''Username must be at least 3 characters'']"
    by (simp add: failing_messages_def field_checks_def rule_checks_def
      signup_props_def username_rules_def)
  show ?thesis
    using validateField_records_first_failing [OF run] by (simp add: fm)
qed

section \<open>Values without a length\<close>

text \<open>
  On every value other than \<^verbatim>\<open>undefined\<close> and \<^verbatim>\<open>null\<close> the chain throws only if the
  custom validator does: \<^verbatim>\<open>value.length\<close> of a number or a boolean is \<^verbatim>\<open>undefined\<close>,
  which fails no comparison.
\<close>

lemma length_of_defined: "v \<noteq> Undefined \<Longrightarrow> v \<noteq> Null \<Longrightarrow> \<not> isl (length_of v)"
  by (cases v) simp_all

lemma validateField_returns_on_defined:
  assumes "v \<noteq> Undefined" and "v \<noteq> Null"
    and "\<forall>validate m. custom r = Some (validate, m) \<longrightarrow> \<not> isl (validate v)"
    and "map_of (validationRules props) name = Some r"
  shows "fst (validateField props name v st) = Inr ()"
proof -
  obtain len where len: "length_of v = Inr len"
    using length_of_defined [OF assms(1,2)] by (cases "length_of v") auto
  have "\<not> isl (custom_branch r v)"
    using assms(3) by (auto simp: custom_branch_def split: option.splits sum.splits)
  then have "\<not> isl (rule_error (Some r) v)"
    by (auto simp: rule_error_def required_cond_def minLength_cond_def maxLength_cond_def
        pattern_cond_def len split: option.splits sum.splits)
  then show ?thesis
    by (cases "rule_error (Some r) v") (simp_all add: validateField_def assms(4))
qed

text \<open>
  Claim C6 says that \<^verbatim>\<open>validateField\<close> never throws. For a field with a length rule and no
  required rule, \<^verbatim>\<open>null\<close> reaches \<^verbatim>\<open>value.length\<close>: the call throws a
  \<^verbatim>\<open>TypeError\<close> and records nothing. \<^verbatim>\<open>validateForm\<close> throws in the same way for such
  a field when the values have no entry for it, and leaves \<^verbatim>\<open>isValidating\<close> true.
\<close>

theorem validateField_null_length_throws:
  "validateField bio_props ''bio'' Null (useForm bio_props) = (Inl TypeError, useForm bio_props) \<and>
   validateForm bio_props Map.empty (useForm bio_props) =
     (Inl TypeError, (useForm bio_props)\<lparr>isValidating := True\<rparr>)"
  by (simp add: validateField_def validateForm_def prop_of_def object_prototype_def bio_props_def chain_defs)

section \<open>Validating the whole form\<close>


text \<open>Calling \<^verbatim>\<open>validateForm\<close> again on the same values leaves \<^verbatim>\<open>errors\<close> as the first
  call left it, whether the calls return or throw.\<close>

lemma validateForm_errors_idempotent:
  "errors (snd (validateForm props vals (snd (validateForm props vals st)))) =
   errors (snd (validateForm props vals st))"
  by (simp add: validateForm_def Let_def split: sum.splits)






section \<open>Submitting\<close>

lemma validateForm_isSubmitting:
  "isSubmitting (snd (validateForm props vals st)) = isSubmitting st"
  by (simp add: validateForm_def Let_def split: sum.splits)

lemma taken_invalid:
  "fst (validateForm signup_props (values' taken_state) (taken_state\<lparr>isSubmitting := True\<rparr>)) =
     Inr False"
  by (simp add: validateForm_def signup_props_def taken_state_def useForm_def prop_of_def object_prototype_def
      username_rules_def age_rules_def chain_defs)

text \<open>
  Claim C3. For every invocation of the handler that \<^verbatim>\<open>handleSubmit(callback)\<close> returns:
  if \<^verbatim>\<open>validateForm\<close> on the current values reports the form invalid, the callback is not
  invoked. The callback is any function on any world, so that the world is left as it was
  says that it did not run.
\<close>

theorem handleSubmit_invalid_skips_callback:
  "fst (validateForm props (values' st) (st\<lparr>isSubmitting := True\<rparr>)) = Inr False \<Longrightarrow>
   snd (snd (handleSubmit props callback st w)) = w"
  by (cases "validateForm props (values' st) (st\<lparr>isSubmitting := True\<rparr>)")
     (simp add: handleSubmit_def)

text \<open>With a user name that is taken, the callback that counts its invocations stays at 0.\<close>

theorem handleSubmit_invalid_skips_callback_witness:
  "snd (snd (handleSubmit signup_props counting_callback taken_state (0::nat))) = 0"
  using handleSubmit_invalid_skips_callback [of signup_props taken_state counting_callback 0] taken_invalid
  by simp

text \<open>
  Claim C7, as amended. For every invocation of the handler in which neither
  \<^verbatim>\<open>validateForm\<close> nor the callback throws, whether validation passes or fails, the
  handler returns and \<^verbatim>\<open>isSubmitting\<close> is false when it does. When \<^verbatim>\<open>validateForm\<close>
  throws, and when the form is valid and the callback throws or rejects, the handler rejects
  with the same reason and \<^verbatim>\<open>isSubmitting\<close> stays true.
\<close>

theorem handleSubmit_clears_isSubmitting:
  "(fst (validateForm props (values' st) (st\<lparr>isSubmitting := True\<rparr>)) = Inr False \<longrightarrow>
      fst (handleSubmit props callback st w) = Inr () \<and>
      \<not> isSubmitting (fst (snd (handleSubmit props callback st w)))) \<and>
   (fst (validateForm props (values' st) (st\<lparr>isSubmitting := True\<rparr>)) = Inr True \<and>
    fst (callback (values' st) w) = Inr () \<longrightarrow>
      fst (handleSubmit props callback st w) = Inr () \<and>
      \<not> isSubmitting (fst (snd (handleSubmit props callback st w)))) \<and>
   (fst (validateForm props (values' st) (st\<lparr>isSubmitting := True\<rparr>)) = Inl e \<longrightarrow>
      fst (handleSubmit props callback st w) = Inl e \<and>
      isSubmitting (fst (snd (handleSubmit props callback st w)))) \<and>
   (fst (validateForm props (values' st) (st\<lparr>isSubmitting := True\<rparr>)) = Inr True \<and>
    fst (callback (values' st) w) = Inl e \<longrightarrow>
      fst (handleSubmit props callback st w) = Inl e \<and>
      isSubmitting (fst (snd (handleSubmit props callback st w))))"
proof -
  obtain r st' where vf: "validateForm props (values' st) (st\<lparr>isSubmitting := True\<rparr>) = (r, st')"
    by (cases "validateForm props (values' st) (st\<lparr>isSubmitting := True\<rparr>)")
  obtain c w' where cb: "callback (values' st) w = (c, w')"
    by (cases "callback (values' st) w")
  have sub: "isSubmitting st'"
    using validateForm_isSubmitting [of props "values' st" "st\<lparr>isSubmitting := True\<rparr>"]
    by (simp add: vf)
  show ?thesis
    using sub by (auto simp: handleSubmit_def vf cb)
qed

text \<open>
  The sign-up form: valid with a callback that returns, invalid, and valid with a callback
  that throws; and the form whose validator throws.
\<close>

theorem handleSubmit_clears_isSubmitting_witness:
  "fst (handleSubmit signup_props counting_callback valid_state 0) = Inr () \<and>
   \<not> isSubmitting (fst (snd (handleSubmit signup_props counting_callback valid_state 0))) \<and>
   fst (handleSubmit signup_props counting_callback taken_state 0) = Inr () \<and>
   \<not> isSubmitting (fst (snd (handleSubmit signup_props counting_callback taken_state 0))) \<and>
   fst (handleSubmit lookup_props counting_callback (useForm lookup_props) 0) =
     Inl (Thrown (Str ''offline'')) \<and>
   isSubmitting (fst (snd (handleSubmit lookup_props counting_callback (useForm lookup_props) 0))) \<and>
   fst (handleSubmit signup_props failing_callback valid_state 0) =
     Inl (Thrown (Str ''request failed'')) \<and>
   isSubmitting (fst (snd (handleSubmit signup_props failing_callback valid_state 0)))"
proof -
  have valid: "fst (validateForm signup_props (values' valid_state)
                      (valid_state\<lparr>isSubmitting := True\<rparr>)) = Inr True"
    by (simp add: validateForm_def signup_props_def valid_state_def useForm_def prop_of_def
        object_prototype_def username_rules_def age_rules_def chain_defs)
  have throws: "fst (validateForm lookup_props (values' (useForm lookup_props))
                       ((useForm lookup_props)\<lparr>isSubmitting := True\<rparr>)) =
                  Inl (Thrown (Str ''offline''))"
    by (simp add: validateForm_def lookup_props_def useForm_def prop_of_def
        object_prototype_def chain_defs)
  have ok: "fst (counting_callback (values' valid_state) 0) = Inr ()"
    by (simp add: counting_callback_def)
  have bad: "fst (failing_callback (values' valid_state) 0) = Inl (Thrown (Str ''request failed''))"
    by (simp add: failing_callback_def)
  from handleSubmit_clears_isSubmitting
         [of signup_props valid_state counting_callback 0 "Thrown (Str ''offline'')"] valid ok
  have w1: "fst (handleSubmit signup_props counting_callback valid_state 0) = Inr () \<and>
            \<not> isSubmitting (fst (snd (handleSubmit signup_props counting_callback valid_state 0)))"
    by blast
  from handleSubmit_clears_isSubmitting
         [of signup_props taken_state counting_callback 0 "Thrown (Str ''offline'')"] taken_invalid
  have w2: "fst (handleSubmit signup_props counting_callback taken_state 0) = Inr () \<and>
            \<not> isSubmitting (fst (snd (handleSubmit signup_props counting_callback taken_state 0)))"
    by blast
  from handleSubmit_clears_isSubmitting
         [of lookup_props "useForm lookup_props" counting_callback 0 "Thrown (Str ''offline'')"]
       throws
  have w3: "fst (handleSubmit lookup_props counting_callback (useForm lookup_props) 0) =
              Inl (Thrown (Str ''offline'')) \<and>
            isSubmitting (fst (snd (handleSubmit lookup_props counting_callback
                                      (useForm lookup_props) 0)))"
    by blast
  from handleSubmit_clears_isSubmitting
         [of signup_props valid_state failing_callback 0 "Thrown (Str ''request failed'')"]
       valid bad
  have w4: "fst (handleSubmit signup_props failing_callback valid_state 0) =
              Inl (Thrown (Str ''request failed'')) \<and>
            isSubmitting (fst (snd (handleSubmit signup_props failing_callback valid_state 0)))"
    by blast
  from w1 w2 w3 w4 show ?thesis by blast
qed

text \<open>
  Claim C7 as stated (whatever the callback does) fails for a callback that throws: the
  form is valid, the callback runs and throws, and \<^verbatim>\<open>isSubmitting\<close> is left true.
\<close>

theorem handleSubmit_isSubmitting_counterexample:
  "fst (handleSubmit signup_props failing_callback valid_state 0) = Inl (Thrown (Str ''request failed'')) \<and>
   isSubmitting (fst (snd (handleSubmit signup_props failing_callback valid_state 0)))"
  by (simp add: handleSubmit_def validateForm_def signup_props_def valid_state_def useForm_def
      failing_callback_def prop_of_def object_prototype_def username_rules_def age_rules_def chain_defs)

section \<open>Resetting\<close>

text \<open>
  Claim C10. After \<^verbatim>\<open>resetForm()\<close>, whatever the state before, \<^verbatim>\<open>values\<close> is the
  \<^verbatim>\<open>initialValues\<close> given at construction and \<^verbatim>\<open>errors\<close> is empty. No validation is
  run: the flags and the pending timeouts are as before, and the result is the same whatever
  the rules are.
\<close>

theorem resetForm_restores_initial:
  "values' (resetForm props st) = initialValues props \<and>
   errors (resetForm props st) = Map.empty \<and>
   isValidating (resetForm props st) = isValidating st \<and>
   isSubmitting (resetForm props st) = isSubmitting st \<and>
   timeouts (resetForm props st) = timeouts st \<and>
   resetForm (props\<lparr>validationRules := vr\<rparr>) st = resetForm props st"
  by (simp add: resetForm_def)

section \<open>The debounce timer\<close>

lemma timer_inv_useForm: "timer_inv (useForm props)"
  by (simp add: timer_inv_def useForm_def)

lemma render_same: "render True st = st"
  by (simp add: render_def)

lemma handleChange_eq:
  assumes "timer_inv st"
  shows "handleChange props name v st =
     st\<lparr>values' := (values' st)(name \<mapsto> v),
        nextTimerId := Suc (nextTimerId st),
        timeouts := [\<lparr>timer_id = nextTimerId st, fires_at = clock st + debounceTime props,
                      arg_name = name, arg_value = v\<rparr>],
        debounceTimer := Some (nextTimerId st)\<rparr>"
proof -
  have "filter (\<lambda>t. Some (timer_id t) \<noteq> debounceTimer st) (timeouts st) = []"
    using assms by (auto simp: timer_inv_def filter_empty_conv)
  then show ?thesis
    by (simp add: handleChange_def debouncedValidateField_def clearTimeout_def setTimeout_def)
qed

lemma timer_inv_handleChange: "timer_inv st \<Longrightarrow> timer_inv (handleChange props name v st)"
  by (simp add: handleChange_eq) (simp add: timer_inv_def)

lemma pending_handleChange: "timer_inv st \<Longrightarrow> pending (handleChange props name v st) = [(name, v)]"
  by (simp add: handleChange_eq pending_def)

lemma errors_handleChange: "timer_inv st \<Longrightarrow> errors (handleChange props name v st) = errors st"
  by (simp add: handleChange_eq)


lemma render_frame:
  "errors (render same st) = errors st"
  "values' (render same st) = values' st"
  "timeouts (render same st) = timeouts st"
  "clock (render same st) = clock st"
  by (simp_all add: render_def)

lemma elapse_early:
  assumes "timer_inv st" "d < debounceTime props"
  shows "elapse props d (handleChange props name v st) =
           ([], (handleChange props name v st)\<lparr>clock := clock st + d\<rparr>)"
  using assms by (simp add: handleChange_eq elapse_def Let_def)

lemma elapse_late:
  assumes "timer_inv st" "debounceTime props \<le> d"
  shows "elapse props d (render same (handleChange props name v st)) =
           ([(name, v)],
            snd (validateField props name v
                  ((render same (handleChange props name v st))
                     \<lparr>clock := clock st + d, timeouts := []\<rparr>)))"
  using assms by (cases same) (simp_all add: render_def handleChange_eq elapse_def Let_def)

lemma timer_inv_clock: "timer_inv (st\<lparr>clock := c\<rparr>) = timer_inv st"
  by (simp add: timer_inv_def)

lemma validateField_frame:
  "timeouts (snd (validateField props name v st)) = timeouts st"
  "debounceTimer (snd (validateField props name v st)) = debounceTimer st"
  "values' (snd (validateField props name v st)) = values' st"
  "m \<noteq> name \<Longrightarrow> errors (snd (validateField props name v st)) m = errors st m"
  by (simp_all add: validateField_def split: sum.splits)

lemma errors_validateField:
  "errors (snd (validateField props name v st)) =
     (case rule_error (map_of (validationRules props) name) v of
        Inl e \<Rightarrow> errors st
      | Inr m \<Rightarrow> (errors st)(name \<mapsto> m))"
  by (simp add: validateField_def split: sum.splits)

lemma run_append:
  "run props (es @ es') st =
     (fst (run props es st) @ fst (run props es' (snd (run props es st))),
      snd (run props es' (snd (run props es st))))"
proof (induction es arbitrary: st)
  case Nil
  then show ?case by simp
next
  case (Cons e es)
  show ?case by (cases e) (simp_all add: Cons.IH split_beta)
qed

lemma burst_quiet:
  "timer_inv st \<Longrightarrow> \<forall>c \<in> set cs. ch_same c \<and> ch_pause c < debounceTime props \<Longrightarrow>
   fst (run props (burst cs) st) = [] \<and>
   timer_inv (snd (run props (burst cs) st)) \<and>
   errors (snd (run props (burst cs) st)) = errors st"
proof (induction cs arbitrary: st)
  case Nil
  then show ?case by simp
next
  case (Cons c cs)
  let ?st1 = "(handleChange props (ch_name c) (ch_value c) st)\<lparr>clock := clock st + ch_pause c\<rparr>"
  from Cons.prems have d: "ch_pause c < debounceTime props" and same: "ch_same c" by simp_all
  have inv1: "timer_inv ?st1"
    using Cons.prems(1) by (simp add: timer_inv_clock timer_inv_handleChange)
  have rest: "\<forall>c \<in> set cs. ch_same c \<and> ch_pause c < debounceTime props"
    using Cons.prems(2) by simp
  have e1: "errors ?st1 = errors st"
    using Cons.prems(1) by (simp add: errors_handleChange)
  have step: "run props (burst (c # cs)) st = run props (burst cs) ?st1"
    by (simp add: same render_same elapse_early [OF Cons.prems(1) d] split_beta)
  from Cons.IH [OF inv1 rest] show ?case
    by (simp only: step e1)
qed

lemma burst_then_change:
  assumes "timer_inv st"
    and "\<forall>c \<in> set cs. ch_same c \<and> ch_pause c < debounceTime props"
    and "debounceTime props \<le> d"
  shows "run props (burst cs @ [Change name v, Render same, Elapse d]) st =
      ([(name, v)],
       snd (validateField props name v
             ((render same (handleChange props name v (snd (run props (burst cs) st))))
                \<lparr>clock := clock (snd (run props (burst cs) st)) + d, timeouts := []\<rparr>)))"
proof -
  let ?st' = "snd (run props (burst cs) st)"
  from burst_quiet [OF assms(1,2)]
  have q: "fst (run props (burst cs) st) = []" and inv: "timer_inv ?st'" by simp_all
  have last: "run props [Change name v, Render same, Elapse d] ?st' =
      ([(name, v)],
       snd (validateField props name v
             ((render same (handleChange props name v ?st'))
                \<lparr>clock := clock ?st' + d, timeouts := []\<rparr>)))"
    by (simp add: elapse_late [OF inv assms(3)])
  show ?thesis
    by (simp add: run_append q last del: run.simps)
qed

lemma burst_then_change_errors:
  assumes "timer_inv st"
    and "\<forall>c \<in> set cs. ch_same c \<and> ch_pause c < debounceTime props"
    and "debounceTime props \<le> d"
  shows "errors (snd (run props (burst cs @ [Change name v, Render same, Elapse d]) st)) =
     (case rule_error (map_of (validationRules props) name) v of
        Inl e \<Rightarrow> errors st
      | Inr m \<Rightarrow> (errors st)(name \<mapsto> m))"
proof -
  let ?st' = "snd (run props (burst cs) st)"
  from burst_quiet [OF assms(1,2)]
  have inv: "timer_inv ?st'" and e: "errors ?st' = errors st" by simp_all
  have pre: "errors ((render same (handleChange props name v ?st'))
                       \<lparr>clock := clock ?st' + d, timeouts := []\<rparr>) = errors st"
    using errors_handleChange [OF inv, of props name v] e
    by (simp add: render_frame del: burst.simps run.simps)
  show ?thesis
    by (simp only: burst_then_change [OF assms] snd_conv errors_validateField pre)
qed

lemma run_timeouts_frame:
  "timeouts (run_timeouts props ts st) = timeouts st"
  "debounceTimer (run_timeouts props ts st) = debounceTimer st"
  by (induction ts arbitrary: st) (simp_all add: validateField_frame)

lemma timer_inv_elapse: "timer_inv st \<Longrightarrow> timer_inv (snd (elapse props d st))"
  by (simp add: elapse_def Let_def timer_inv_def run_timeouts_frame)

text \<open>The invariant holds along every history in which \<^verbatim>\<open>validationRules\<close> is the same
  object at every re-render.\<close>

lemma timer_inv_run:
  "timer_inv st \<Longrightarrow> Render False \<notin> set es \<Longrightarrow> timer_inv (snd (run props es st))"
proof (induction es arbitrary: st)
  case Nil
  then show ?case by simp
next
  case (Cons e es)
  from Cons.prems have rest: "Render False \<notin> set es" by simp
  show ?case
  proof (cases e)
    case (Change name v)
    with Cons.IH [OF timer_inv_handleChange [OF Cons.prems(1)] rest] show ?thesis by simp
  next
    case (Render same)
    with Cons.prems have "same" by auto
    with Cons.IH [OF Cons.prems(1) rest] Render show ?thesis by (simp add: render_same)
  next
    case (Elapse d)
    with Cons.IH [OF timer_inv_elapse [OF Cons.prems(1), of props d] rest] show ?thesis
      by (simp add: split_beta)
  qed
qed

lemma timer_inv_validateField: "timer_inv (snd (validateField props name v st)) = timer_inv st"
  by (simp add: timer_inv_def validateField_frame)

lemma timer_inv_validateForm: "timer_inv (snd (validateForm props vals st)) = timer_inv st"
  by (simp add: timer_inv_def validateForm_def Let_def split: sum.splits)

lemma timer_inv_handleSubmit:
  "timer_inv (fst (snd (handleSubmit props callback st w))) = timer_inv st"
proof -
  have "timer_inv (snd (validateForm props (values' st) (st\<lparr>isSubmitting := True\<rparr>))) = timer_inv st"
    by (simp add: timer_inv_validateForm) (simp add: timer_inv_def)
  then show ?thesis
    by (cases "validateForm props (values' st) (st\<lparr>isSubmitting := True\<rparr>)")
       (auto simp: handleSubmit_def timer_inv_def split: sum.splits prod.splits)
qed

lemma timer_inv_resetForm: "timer_inv (resetForm props st) = timer_inv st"
  by (simp add: timer_inv_def resetForm_def)




text \<open>
  Claim C5, as amended. While \<^verbatim>\<open>validationRules\<close> is the same object at the re-renders
  between the calls, the timer is one for all fields. A call of \<^verbatim>\<open>handleChange\<close> cancels
  whatever validation is pending, of the same field or of another, and leaves its own as the
  only one pending. After any burst of calls, each before the timer of the one before it
  fires, only the last call is validated: the timers have run \<^verbatim>\<open>validateField\<close> once, on
  the field and value of the last call, and \<^verbatim>\<open>errors\<close> is as before the burst but for the
  entry of that field, which holds what the rules give on that value. The entries of the
  other fields that were changed are not updated.
\<close>

theorem shared_timer_validates_last_field_only:
  assumes "timer_inv st"
    and "\<forall>c \<in> set cs. ch_same c \<and> ch_pause c < debounceTime props"
    and "debounceTime props \<le> d"
  shows "pending (handleChange props name v st) = [(name, v)] \<and>
         fst (run props (burst cs @ [Change name v, Render same, Elapse d]) st) = [(name, v)] \<and>
         pending (snd (run props (burst cs @ [Change name v, Render same, Elapse d]) st)) = [] \<and>
         errors (snd (run props (burst cs @ [Change name v, Render same, Elapse d]) st)) =
           (case rule_error (map_of (validationRules props) name) v of
              Inl e \<Rightarrow> errors st
            | Inr m \<Rightarrow> (errors st)(name \<mapsto> m))"
proof -
  note all = burst_then_change [OF assms, of name v same]
  have p: "pending (snd (run props (burst cs @ [Change name v, Render same, Elapse d]) st)) = []"
    unfolding all by (simp add: pending_def validateField_frame)
  show ?thesis
    using pending_handleChange [OF assms(1)] p burst_then_change_errors [OF assms, of name v same]
    by (simp add: all)
qed

theorem shared_timer_validates_last_field_only_witness:
  "pending (handleChange signup_props ''age'' (Num (Fin 17))
             (handleChange signup_props ''username'' (Str ''ab'') (useForm signup_props))) =
     [(''age'', Num (Fin 17))] \<and>
   fst (run signup_props
         (burst [\<lparr>ch_name = ''username'', ch_value = Str ''ab'', ch_same = True, ch_pause = 100\<rparr>] @
          [Change ''age'' (Num (Fin 17)), Render True, Elapse 300])
         (useForm signup_props)) = [(''age'', Num (Fin 17))] \<and>
   errors (snd (run signup_props
         (burst [\<lparr>ch_name = ''username'', ch_value = Str ''ab'', ch_same = True, ch_pause = 100\<rparr>] @
          [Change ''age'' (Num (Fin 17)), Render True, Elapse 300])
         (useForm signup_props))) = [''age'' \<mapsto> ''You must be at least 18 years old'']"
proof -
  let ?cs = "[\<lparr>ch_name = ''username'', ch_value = Str ''ab'', ch_same = True, ch_pause = 100\<rparr>]"
  have delay: "debounceTime signup_props = 300"
    by (simp add: signup_props_def)
  have e: "errors (useForm signup_props) = Map.empty"
    by (simp add: useForm_def)
  have v: "rule_error (map_of (validationRules signup_props) ''age'') (Num (Fin 17)) =
             Inr ''You must be at least 18 years old''"
    by (simp add: signup_props_def age_rules_def chain_defs)
  have short: "\<forall>c \<in> set ?cs. ch_same c \<and> ch_pause c < debounceTime signup_props"
    by (simp add: delay)
  have late: "debounceTime signup_props \<le> 300"
    by (simp add: delay)
  have a: "pending (handleChange signup_props ''age'' (Num (Fin 17))
             (handleChange signup_props ''username'' (Str ''ab'') (useForm signup_props))) =
     [(''age'', Num (Fin 17))]"
    using shared_timer_validates_last_field_only
            [OF timer_inv_handleChange [OF timer_inv_useForm] short late] by blast
  have b: "fst (run signup_props (burst ?cs @ [Change ''age'' (Num (Fin 17)), Render True, Elapse 300])
                 (useForm signup_props)) = [(''age'', Num (Fin 17))]"
    using shared_timer_validates_last_field_only [OF timer_inv_useForm short late] by blast
  have c: "errors (snd (run signup_props
                 (burst ?cs @ [Change ''age'' (Num (Fin 17)), Render True, Elapse 300])
                 (useForm signup_props))) = [''age'' \<mapsto> ''You must be at least 18 years old'']"
    using shared_timer_validates_last_field_only
            [OF timer_inv_useForm short late, where name = "''age''" and v = "Num (Fin 17)"
               and same = True]
    by (simp add: e v del: run.simps burst.simps)
  from a b c show ?thesis by blast
qed

text \<open>
  Claim C5 as stated fails when \<^verbatim>\<open>validationRules\<close> is a new object at every re-render:
  the change of \<^verbatim>\<open>age\<close> does not cancel the pending validation of \<^verbatim>\<open>username\<close>, both
  are validated, and the entry of \<^verbatim>\<open>username\<close> in \<^verbatim>\<open>errors\<close> is updated.
\<close>

theorem shared_timer_new_rules_object_counterexample:
  "pending (snd (run signup_props
         [Change ''username'' (Str ''ab''), Render False, Elapse 100,
          Change ''age'' (Num (Fin 17))] (useForm signup_props))) =
     [(''username'', Str ''ab''), (''age'', Num (Fin 17))] \<and>
   fst (run signup_props
         [Change ''username'' (Str ''ab''), Render False, Elapse 100,
          Change ''age'' (Num (Fin 17)), Render False, Elapse 300] (useForm signup_props)) =
     [(''username'', Str ''ab''), (''age'', Num (Fin 17))] \<and>
   errors (snd (run signup_props
         [Change ''username'' (Str ''ab''), Render False, Elapse 100,
          Change ''age'' (Num (Fin 17)), Render False, Elapse 300] (useForm signup_props)))
     ''username'' = Some ''Username must be at least 3 characters''"
  by (simp add: handleChange_def debouncedValidateField_def clearTimeout_def setTimeout_def
      render_def elapse_def pending_def useForm_def signup_props_def Let_def validateField_def
      username_rules_def age_rules_def chain_defs)

end
